theory Spec2Isabelle
  imports Main "HOL-Library.Sublist"
begin

section \<open>Common conventions\<close>

text \<open>
  A Go \<^verbatim>\<open>error\<close> built by \<^verbatim>\<open>fmt.Errorf\<close> is its message; a function returning
  \<^verbatim>\<open>error\<close> returns \<open>error option\<close>, with \<open>None\<close> for \<^verbatim>\<open>nil\<close>. Go strings are byte
  strings, as \<open>string\<close> is. A slice is a list: \<^verbatim>\<open>len\<close> and \<^verbatim>\<open>append\<close> treat the nil slice
  and the empty slice alike, and both are \<open>[]\<close> here.
\<close>

type_synonym error = string

section \<open>The mail message builder\<close>

text \<open>
  The struct \<^verbatim>\<open>EmailAddress\<close> is declared in a file of the package that is not part of
  this development; the builder uses exactly its two string fields \<^verbatim>\<open>Address\<close> and
  \<^verbatim>\<open>Name\<close>. Field names that two
  structs share carry the struct's name as a prefix.
\<close>

record EmailAddress =
  Address :: string
  Name :: string

record Recipient =
  EmailAddress :: EmailAddress

record Attachment =
  DataType :: string
  Attachment_Name :: string
  Attachment_ContentType :: string
  ContentBytes :: string

record MsgBody =
  ContentType :: string
  Content :: string

record Message =
  Subject :: string
  Body :: MsgBody
  ToRecipients :: "Recipient list"
  CcRecipients :: "Recipient list"
  BccRecipients :: "Recipient list"
  From :: Recipient
  Attachments :: "Attachment list"

record Mail =
  Message :: Message

text \<open>The zero value of \<^verbatim>\<open>Recipient\<close>: both strings empty.\<close>

definition Recipient_zero :: Recipient where
  "Recipient_zero = \<lparr>EmailAddress = \<lparr>Address = [], Name = []\<rparr>\<rparr>"

text \<open>\<^verbatim>\<open>NewMail\<close> leaves \<^verbatim>\<open>ToRecipients\<close> nil, \<^verbatim>\<open>MakeMail\<close> sets it to the empty slice.\<close>

definition NewMail :: Mail where
  "NewMail = \<lparr>Message = \<lparr>Subject = [], Body = \<lparr>ContentType = ''Text'', Content = []\<rparr>,
     ToRecipients = [], CcRecipients = [], BccRecipients = [], From = Recipient_zero,
     Attachments = []\<rparr>\<rparr>"

definition MakeMail :: Mail where
  "MakeMail = \<lparr>Message = \<lparr>Subject = [], Body = \<lparr>ContentType = ''Text'', Content = []\<rparr>,
     ToRecipients = [], CcRecipients = [], BccRecipients = [], From = Recipient_zero,
     Attachments = []\<rparr>\<rparr>"

definition Mail_Subject :: "string \<Rightarrow> Mail \<Rightarrow> Mail" where
  "Mail_Subject subject m = m\<lparr>Message := (Message m)\<lparr>Subject := subject\<rparr>\<rparr>"

text \<open>
  The variadic builders switch on the number of arguments; the indexing \<open>!\<close> is only
  reached under the length that makes it in range.
\<close>

definition AddRecipient :: "string list \<Rightarrow> Mail \<Rightarrow> error option \<times> Mail" where
  "AddRecipient recipient m =
     (if length recipient = 1 then
        (None, m\<lparr>Message := (Message m)\<lparr>ToRecipients := ToRecipients (Message m) @
           [\<lparr>EmailAddress = \<lparr>Address = recipient ! 0, Name = []\<rparr>\<rparr>]\<rparr>\<rparr>)
      else if length recipient = 2 then
        (None, m\<lparr>Message := (Message m)\<lparr>ToRecipients := ToRecipients (Message m) @
           [\<lparr>EmailAddress = \<lparr>Address = recipient ! 0, Name = recipient ! 1\<rparr>\<rparr>]\<rparr>\<rparr>)
      else (Some ''add recipient only accepts 1-2 arguments'', m))"

definition CCRecipient :: "string list \<Rightarrow> Mail \<Rightarrow> error option \<times> Mail" where
  "CCRecipient recipient m =
     (if length recipient = 1 then
        (None, m\<lparr>Message := (Message m)\<lparr>CcRecipients := CcRecipients (Message m) @
           [\<lparr>EmailAddress = \<lparr>Address = recipient ! 0, Name = []\<rparr>\<rparr>]\<rparr>\<rparr>)
      else if length recipient = 2 then
        (None, m\<lparr>Message := (Message m)\<lparr>CcRecipients := CcRecipients (Message m) @
           [\<lparr>EmailAddress = \<lparr>Address = recipient ! 0, Name = recipient ! 1\<rparr>\<rparr>]\<rparr>\<rparr>)
      else (Some ''CCRecipient() only accepts 1-2 arguments'', m))"

definition BCCRecipient :: "string list \<Rightarrow> Mail \<Rightarrow> error option \<times> Mail" where
  "BCCRecipient recipient m =
     (if length recipient = 1 then
        (None, m\<lparr>Message := (Message m)\<lparr>BccRecipients := BccRecipients (Message m) @
           [\<lparr>EmailAddress = \<lparr>Address = recipient ! 0, Name = []\<rparr>\<rparr>]\<rparr>\<rparr>)
      else if length recipient = 2 then
        (None, m\<lparr>Message := (Message m)\<lparr>BccRecipients := BccRecipients (Message m) @
           [\<lparr>EmailAddress = \<lparr>Address = recipient ! 0, Name = recipient ! 1\<rparr>\<rparr>]\<rparr>\<rparr>)
      else (Some ''BCCRecipient() only accepts 1-2 arguments'', m))"

definition Mail_From :: "string list \<Rightarrow> Mail \<Rightarrow> error option \<times> Mail" where
  "Mail_From from m =
     (if length from = 1 then
        (None, m\<lparr>Message := (Message m)\<lparr>From :=
           \<lparr>EmailAddress = \<lparr>Address = from ! 0, Name = []\<rparr>\<rparr>\<rparr>\<rparr>)
      else if length from = 2 then
        (None, m\<lparr>Message := (Message m)\<lparr>From :=
           \<lparr>EmailAddress = \<lparr>Address = from ! 0, Name = from ! 1\<rparr>\<rparr>\<rparr>\<rparr>)
      else (Some ''From() only accepts 1-2 arguments'', m))"

definition Mail_Body :: "string \<Rightarrow> string \<Rightarrow> Mail \<Rightarrow> Mail" where
  "Mail_Body contentType content m =
     m\<lparr>Message := (Message m)\<lparr>Body :=
       (Body (Message m))\<lparr>ContentType := contentType, Content := content\<rparr>\<rparr>\<rparr>"

subsection \<open>Standard base64\<close>

text \<open>
  \<^verbatim>\<open>b64.StdEncoding.EncodeToString\<close> is the base64 encoding of RFC 4648 with the standard
  alphabet and \<^verbatim>\<open>=\<close> padding: three bytes become four characters, each standing for six
  bits; a last group of one or two bytes is padded to four characters.
\<close>

definition encodeStd :: string where
  "encodeStd = ''ABCDEFGHIJKLMNOPQRSTUVWXYZabcdefghijklmnopqrstuvwxyz0123456789+/''"

fun b64_groups :: "nat list \<Rightarrow> string" where
  "b64_groups [] = []"
| "b64_groups [a] =
     [encodeStd ! (a div 4), encodeStd ! ((a mod 4) * 16), CHR ''='', CHR ''='']"
| "b64_groups [a, b] =
     [encodeStd ! (a div 4), encodeStd ! ((a mod 4) * 16 + b div 16),
      encodeStd ! ((b mod 16) * 4), CHR ''='']"
| "b64_groups (a # b # c # rest) =
     [encodeStd ! (a div 4), encodeStd ! ((a mod 4) * 16 + b div 16),
      encodeStd ! ((b mod 16) * 4 + c div 64), encodeStd ! (c mod 64)] @ b64_groups rest"

definition StdEncoding_EncodeToString :: "string \<Rightarrow> string" where
  "StdEncoding_EncodeToString content = b64_groups (map of_char content)"

definition AddFileAttachment :: "string \<Rightarrow> string \<Rightarrow> string \<Rightarrow> Mail \<Rightarrow> Mail" where
  "AddFileAttachment attachmentName contentType content m =
     (let attachment = \<lparr>DataType = ''#microsoft.graph.fileAttachment'',
            Attachment_Name = attachmentName,
            Attachment_ContentType = contentType,
            ContentBytes = StdEncoding_EncodeToString content\<rparr>
      in m\<lparr>Message := (Message m)\<lparr>Attachments := Attachments (Message m) @ [attachment]\<rparr>\<rparr>)"

text \<open>
  The builder calls of the specification's example, in order, from a given fresh mail;
  the two errors of \<^verbatim>\<open>AddRecipient\<close> are returned beside the final mail.
\<close>

definition example_content :: string where
  "example_content = ''a,b\<newline>1,2\<newline>''"

definition build_example :: "Mail \<Rightarrow> error option \<times> error option \<times> Mail" where
  "build_example m0 =
     (let (e1, m1) = AddRecipient [''a@x.com''] m0;
          (e2, m2) = AddRecipient [''b@x.com'', ''B Name''] m1;
          m3 = Mail_Body ''HTML'' ''<b>hi</b>'' m2;
          m4 = AddFileAttachment ''f.csv'' ''text/plain'' example_content m3
      in (e1, e2, m4))"

section \<open>The Graph client\<close>

subsection \<open>Requests, responses and the environment\<close>

text \<open>
  \<^verbatim>\<open>url.Values\<close> and \<^verbatim>\<open>http.Header\<close> are maps from a key to the list of its values;
  \<^verbatim>\<open>Add\<close> appends a value to the key's list. (The header keys the client adds are
  already in canonical form.)
\<close>

type_synonym Values = "string \<rightharpoonup> string list"

definition Values_Add :: "Values \<Rightarrow> string \<Rightarrow> string \<Rightarrow> Values" where
  "Values_Add v key val = v(key \<mapsto> (case v key of None \<Rightarrow> [] | Some vs \<Rightarrow> vs) @ [val])"

record URL =
  Scheme :: string
  Host :: string
  Path :: string
  RawQuery :: string

record Request =
  Method :: string
  URL :: URL
  Header :: Values
  Request_Body :: "string option"

text \<open>
  What \<^verbatim>\<open>performRequest\<close> sees of a response: the status code, the bytes
  \<^verbatim>\<open>ioutil.ReadAll\<close> returned and the error it returned with them.
\<close>

record Response =
  StatusCode :: int
  Response_Body :: string
  ReadErr :: "error option"

text \<open>
  The actions of the client in program order: taking and releasing the mutex
  \<^verbatim>\<open>apiCall\<close>, entering \<^verbatim>\<open>refreshToken\<close>, reading and assigning the field \<^verbatim>\<open>token\<close>,
  and handing a request to \<^verbatim>\<open>httpClient.Do\<close>.
\<close>

datatype event = Lock | Unlock | RefreshToken | ReadToken | WriteToken | Do Request

text \<open>
  Modelled from the spec: the struct \<^verbatim>\<open>Token\<close> is declared in a file of the package that
  is not part of this development. The specification's credential holds an opaque bearer
  value and an expiry instant. Instants are integers; the zero value of the struct has
  the empty bearer value and the instant \<open>0\<close>.
\<close>

record Token =
  AccessToken :: string
  ExpiresOn :: int

definition Token_zero :: Token where
  "Token_zero = \<lparr>AccessToken = [], ExpiresOn = 0\<rparr>"

text \<open>
  Modelled from the spec: the method \<^verbatim>\<open>Token.WantsToBeRefreshed\<close> is not part of this
  development. By the specification, a credential with expiry \<open>T\<close> is refreshable once
  the current time reaches \<open>T\<close> minus a fixed safety margin. The margin is the first
  argument and the current time, which the method reads from \<^verbatim>\<open>time.Now\<close>, the last.
\<close>

definition WantsToBeRefreshed :: "int \<Rightarrow> Token \<Rightarrow> int \<Rightarrow> bool" where
  "WantsToBeRefreshed safety t now = (ExpiresOn t - safety \<le> now)"

text \<open>
  Modelled from the spec: the method \<^verbatim>\<open>Token.GetAccessToken\<close> is not part of this
  development. By the specification, the \<^verbatim>\<open>Authorization\<close> header carries the credential,
  which is the opaque bearer value.
\<close>

definition GetAccessToken :: "Token \<Rightarrow> string" where
  "GetAccessToken t = AccessToken t"

text \<open>
  The environment of the client. Its first five fields are the package constants, which
  are declared in a file of the package that is not part of this development
  (\<open>margin\<close> is the safety margin of \<^verbatim>\<open>WantsToBeRefreshed\<close>). The others are what the standard library and the network do:
  \<^verbatim>\<open>url.ParseRequestURI\<close>; the error, if any, with which \<^verbatim>\<open>http.NewRequest\<close> refuses a
  method and URL; \<^verbatim>\<open>URL.String\<close>; \<^verbatim>\<open>Values.Encode\<close>; \<^verbatim>\<open>httpClient.Do\<close>, whose answer may
  depend on what happened before (a transport failure, the ten seconds' timeout
  included, is \<open>Inl\<close>); and \<^verbatim>\<open>json.Unmarshal\<close> into a token and into the three
  configuration fields.
\<close>

record Config =
  tmp_TenantID :: string
  tmp_ApplicationID :: string
  tmp_ClientSecret :: string

record env =
  BaseURL :: string
  LoginBaseURL :: string
  APIVersion :: string
  MaxPageSize :: int
  margin :: int
  ParseRequestURI :: "string \<Rightarrow> error + URL"
  NewRequest_err :: "string \<Rightarrow> URL \<Rightarrow> error option"
  URL_String :: "URL \<Rightarrow> string"
  Values_Encode :: "Values \<Rightarrow> string"
  Client_Do :: "event list \<Rightarrow> Request \<Rightarrow> error + Response"
  Unmarshal_Token :: "string \<Rightarrow> Token \<Rightarrow> error option \<times> Token"
  Unmarshal_Config :: "string \<Rightarrow> error + Config"

text \<open>The world outside the client: the clock \<^verbatim>\<open>time.Now\<close> reads, and the actions so far.\<close>

record world =
  clock :: int
  trace :: "event list"

definition emit :: "event \<Rightarrow> world \<Rightarrow> world" where
  "emit ev w = w\<lparr>trace := trace w @ [ev]\<rparr>"

record GraphClient =
  apiCall :: bool
  TenantID :: string
  ApplicationID :: string
  ClientSecret :: string
  token :: Token

text \<open>
  \<^verbatim>\<open>http.NewRequest\<close> is handed the URL as a string and parses it again; a request it
  returns has the given method, that URL, no header and the given body.
\<close>

definition NewRequest :: "env \<Rightarrow> string \<Rightarrow> URL \<Rightarrow> string option \<Rightarrow> error + Request" where
  "NewRequest E method u body =
     (case NewRequest_err E method u of
        Some err \<Rightarrow> Inl err
      | None \<Rightarrow> Inr \<lparr>Method = method, URL = u, Header = Map.empty, Request_Body = body\<rparr>)"

text \<open>\<^verbatim>\<open>strconv.Itoa\<close>, and \<^verbatim>\<open>%v\<close> of an \<^verbatim>\<open>int\<close>: the decimal digits, after a minus sign if negative.\<close>

function itoa_nat :: "nat \<Rightarrow> string" where
  "itoa_nat n =
     (if n < 10 then [''0123456789'' ! n] else itoa_nat (n div 10) @ [''0123456789'' ! (n mod 10)])"
  by pat_completeness auto
termination
  by (relation "measure id") auto

declare itoa_nat.simps [simp del]

definition itoa :: "int \<Rightarrow> string" where
  "itoa i = (if i < 0 then CHR ''-'' # itoa_nat (nat (- i)) else itoa_nat (nat i))"

subsection \<open>The call path\<close>

text \<open>
  \<^verbatim>\<open>performRequest\<close> sends the request, reads the whole body, checks the status, and
  unmarshals the body into the caller's value \<open>v\<close>. The caller's value is an
  \<^verbatim>\<open>interface{}\<close> holding a pointer; \<open>unmarshal\<close> is what \<^verbatim>\<open>json.Unmarshal\<close> does at the
  type behind it: from the body and the old value, the error and the new value.
\<close>

definition performRequest ::
  "env \<Rightarrow> Request \<Rightarrow> (string \<Rightarrow> 'v \<Rightarrow> error option \<times> 'v) \<Rightarrow> 'v \<Rightarrow> world \<Rightarrow>
   error option \<times> 'v \<times> world" where
  "performRequest E req unmarshal v w =
     (case Client_Do E (trace w) req of
        Inl err \<Rightarrow>
          (Some (''HTTP response error: '' @ err @ '' of http.Request: '' @ URL_String E (URL req)),
           v, emit (Do req) w)
      | Inr resp \<Rightarrow>
          if StatusCode resp < 200 \<or> StatusCode resp > 299 then
            (Some (''StatusCode is not OK: '' @ itoa (StatusCode resp) @ ''. Body: '' @
                   Response_Body resp @ '' ''),
             v, emit (Do req) w)
          else
            (case ReadErr resp of
               Some err \<Rightarrow>
                 (Some (''HTTP response read error: '' @ err @ '' of http.Request: '' @
                        URL_String E (URL req)),
                  v, emit (Do req) w)
             | None \<Rightarrow>
                 (fst (unmarshal (Response_Body resp) v), snd (unmarshal (Response_Body resp) v),
                  emit (Do req) w)))"

definition token_form :: "env \<Rightarrow> GraphClient \<Rightarrow> Values" where
  "token_form E g =
     Values_Add (Values_Add (Values_Add (Values_Add Map.empty
       ''grant_type'' ''client_credentials'')
       ''client_id'' (ApplicationID g))
       ''client_secret'' (ClientSecret g))
       ''resource'' (BaseURL E)"

definition refreshToken :: "env \<Rightarrow> GraphClient \<Rightarrow> world \<Rightarrow> error option \<times> GraphClient \<times> world" where
  "refreshToken E g w =
     (let w0 = emit RefreshToken w in
      if TenantID g = [] then (Some ''Tenant ID is empty'', g, w0)
      else
        let resource = ''/'' @ TenantID g @ ''/oauth2/token'';
            data = token_form E g
        in case ParseRequestURI E (LoginBaseURL E) of
             Inl err \<Rightarrow> (Some (''Unable to parse URI: '' @ err), g, w0)
           | Inr u \<Rightarrow>
               (case NewRequest E ''POST'' (u\<lparr>Path := resource\<rparr>) (Some (Values_Encode E data)) of
                  Inl err \<Rightarrow> (Some (''HTTP Request Error: '' @ err), g, w0)
                | Inr req0 \<Rightarrow>
                    let req = req0\<lparr>Header :=
                          Values_Add (Values_Add (Header req0)
                            ''Content-Type'' ''application/x-www-form-urlencoded'')
                            ''Content-Length'' (itoa (int (length (Values_Encode E data))))\<rparr>
                    in (case performRequest E req (Unmarshal_Token E) Token_zero w0 of
                          (Some err, newToken, w1) \<Rightarrow>
                            (Some (''Error on getting msgraph Token: '' @ err), g, w1)
                        | (None, newToken, w1) \<Rightarrow>
                            (None, g\<lparr>token := newToken\<rparr>, emit WriteToken w1))))"

text \<open>
  \<^verbatim>\<open>NewGraphClient\<close> returns the client beside the error also when the refresh fails. The
  deferred \<^verbatim>\<open>Unlock\<close> runs after \<^verbatim>\<open>refreshToken\<close> has returned.
\<close>

definition NewGraphClient ::
  "env \<Rightarrow> string \<Rightarrow> string \<Rightarrow> string \<Rightarrow> world \<Rightarrow> GraphClient \<times> error option \<times> world" where
  "NewGraphClient E tenantID applicationID clientSecret w =
     (let g = \<lparr>apiCall = False, TenantID = tenantID, ApplicationID = applicationID,
               ClientSecret = clientSecret, token = Token_zero\<rparr>;
          (err, g1, w1) = refreshToken E (g\<lparr>apiCall := True\<rparr>) (emit Lock w)
      in (g1\<lparr>apiCall := False\<rparr>, err, emit Unlock w1))"

text \<open>
  The body of \<^verbatim>\<open>makeGETAPICall\<close> between taking the mutex and the deferred release.
  A nil \<^verbatim>\<open>getParams\<close> is \<open>None\<close>. (A map the caller passes is itself extended by
  \<^verbatim>\<open>$top\<close>; the caller's view of it is not part of this model.)
\<close>

definition makeGETAPICall_locked ::
  "env \<Rightarrow> string \<Rightarrow> Values option \<Rightarrow> (string \<Rightarrow> 'v \<Rightarrow> error option \<times> 'v) \<Rightarrow> 'v \<Rightarrow>
   GraphClient \<Rightarrow> world \<Rightarrow> error option \<times> 'v \<times> GraphClient \<times> world" where
  "makeGETAPICall_locked E apicall getParams unmarshal v g w =
     (let w1 = emit ReadToken w;
          (rerr, g1, w2) =
            (if WantsToBeRefreshed (margin E) (token g) (clock w) then refreshToken E g w1
             else (None, g, w1))
      in case rerr of
           Some err \<Rightarrow> (Some err, v, g1, w2)
         | None \<Rightarrow>
             (case ParseRequestURI E (BaseURL E) of
                Inl err \<Rightarrow> (Some (''Unable to parse URI '' @ BaseURL E @ '': '' @ err), v, g1, w2)
              | Inr reqURL \<Rightarrow>
                  (case NewRequest E ''GET'' (reqURL\<lparr>Path := ''/'' @ APIVersion E @ apicall\<rparr>) None of
                     Inl err \<Rightarrow> (Some (''HTTP request error: '' @ err), v, g1, w2)
                   | Inr req0 \<Rightarrow>
                       let req1 = req0\<lparr>Header :=
                             Values_Add (Values_Add (Header req0)
                               ''Content-Type'' ''application/json'')
                               ''Authorization'' (GetAccessToken (token g1))\<rparr>;
                           w3 = emit ReadToken w2;
                           params = (case getParams of None \<Rightarrow> Map.empty | Some p \<Rightarrow> p);
                           params' = Values_Add params ''$top'' (itoa (MaxPageSize E));
                           req = req1\<lparr>URL := (URL req1)\<lparr>RawQuery := Values_Encode E params'\<rparr>\<rparr>;
                           (err, v', w4) = performRequest E req unmarshal v w3
                       in (err, v', g1, w4))))"

text \<open>
  \<^verbatim>\<open>sync.Mutex\<close> is not reentrant and this model has one thread of control: \<^verbatim>\<open>Lock\<close> on
  a mutex that is held never returns, which is the result \<open>None\<close>.
\<close>

definition makeGETAPICall ::
  "env \<Rightarrow> string \<Rightarrow> Values option \<Rightarrow> (string \<Rightarrow> 'v \<Rightarrow> error option \<times> 'v) \<Rightarrow> 'v \<Rightarrow>
   GraphClient \<Rightarrow> world \<Rightarrow> (error option \<times> 'v \<times> GraphClient \<times> world) option" where
  "makeGETAPICall E apicall getParams unmarshal v g w =
     (if apiCall g then None
      else
        let (err, v', g', w') =
              makeGETAPICall_locked E apicall getParams unmarshal v (g\<lparr>apiCall := True\<rparr>)
                (emit Lock w)
        in Some (err, v', g'\<lparr>apiCall := False\<rparr>, emit Unlock w'))"

text \<open>
  \<^verbatim>\<open>UnmarshalJSON\<close> assigns the three fields one by one, each before its check, and then
  refreshes the token. It does not touch the mutex.
\<close>

definition UnmarshalJSON :: "env \<Rightarrow> string \<Rightarrow> GraphClient \<Rightarrow> world \<Rightarrow> error option \<times> GraphClient \<times> world" where
  "UnmarshalJSON E data g w =
     (case Unmarshal_Config E data of
        Inl err \<Rightarrow> (Some err, g, w)
      | Inr tmp \<Rightarrow>
          let g1 = g\<lparr>TenantID := tmp_TenantID tmp\<rparr> in
          if TenantID g1 = [] then (Some ''TenantID is empty'', g1, w)
          else
            let g2 = g1\<lparr>ApplicationID := tmp_ApplicationID tmp\<rparr> in
            if ApplicationID g2 = [] then (Some ''ApplicationID is empty'', g2, w)
            else
              let g3 = g2\<lparr>ClientSecret := tmp_ClientSecret tmp\<rparr> in
              if ClientSecret g3 = [] then (Some ''ClientSecret is empty'', g3, w)
              else
                (case refreshToken E g3 w of
                   (Some err, g4, w1) \<Rightarrow> (Some (''Can't get Token: '' @ err), g4, w1)
                 | (None, g4, w1) \<Rightarrow> (None, g4, w1)))"

subsection \<open>Reading a trace\<close>

text \<open>The actions a call added to the trace.\<close>

definition events_since :: "world \<Rightarrow> world \<Rightarrow> event list" where
  "events_since w w' = drop (length (trace w)) (trace w')"

text \<open>
  The lock discipline of the token on a sequence of actions, from a state in which the
  mutex is held or not: the mutex is taken only when free and released only when held,
  and \<^verbatim>\<open>refreshToken\<close> is entered and the token read or assigned only while it is held.
\<close>

fun lock_discipline :: "bool \<Rightarrow> event list \<Rightarrow> bool" where
  "lock_discipline held [] = True"
| "lock_discipline held (Lock # evs) = (\<not> held \<and> lock_discipline True evs)"
| "lock_discipline held (Unlock # evs) = (held \<and> lock_discipline False evs)"
| "lock_discipline held (RefreshToken # evs) = (held \<and> lock_discipline held evs)"
| "lock_discipline held (ReadToken # evs) = (held \<and> lock_discipline held evs)"
| "lock_discipline held (WriteToken # evs) = (held \<and> lock_discipline held evs)"
| "lock_discipline held (Do req # evs) = lock_discipline held evs"

text \<open>The requests among the actions.\<close>

fun requests :: "event list \<Rightarrow> Request list" where
  "requests [] = []"
| "requests (Do req # evs) = req # requests evs"
| "requests (ev # evs) = requests evs"

text \<open>The query parameters a caller gave: none for nil.\<close>

definition given_params :: "Values option \<Rightarrow> Values" where
  "given_params getParams = (case getParams of None \<Rightarrow> Map.empty | Some p \<Rightarrow> p)"

text \<open>
  Four notions the statements below use: the request \<^verbatim>\<open>refreshToken\<close> builds on the
  parsed login URL \<open>u\<close> for the client \<open>g\<close>; the request \<^verbatim>\<open>makeGETAPICall\<close> builds on the
  parsed base URL \<open>u\<close> with the token \<open>tok\<close>; whether the client's token wants to be
  refreshed in a world; and that a sequence of actions is a successful refresh that
  turned the client \<open>g\<close> into \<open>g1\<close>.
\<close>

definition token_request :: "env \<Rightarrow> URL \<Rightarrow> GraphClient \<Rightarrow> Request" where
  "token_request E u g =
     \<lparr>Method = ''POST'',
      URL = u\<lparr>Path := ''/'' @ TenantID g @ ''/oauth2/token''\<rparr>,
      Header = Values_Add (Values_Add Map.empty
                 ''Content-Type'' ''application/x-www-form-urlencoded'')
                 ''Content-Length'' (itoa (int (length (Values_Encode E (token_form E g))))),
      Request_Body = Some (Values_Encode E (token_form E g))\<rparr>"

definition api_request :: "env \<Rightarrow> URL \<Rightarrow> string \<Rightarrow> Values option \<Rightarrow> Token \<Rightarrow> Request" where
  "api_request E u apicall getParams tok =
     \<lparr>Method = ''GET'',
      URL = u\<lparr>Path := ''/'' @ APIVersion E @ apicall,
              RawQuery := Values_Encode E
                (Values_Add (case getParams of None \<Rightarrow> Map.empty | Some p \<Rightarrow> p)
                   ''$top'' (itoa (MaxPageSize E)))\<rparr>,
      Header = Values_Add (Values_Add Map.empty ''Content-Type'' ''application/json'')
                 ''Authorization'' (GetAccessToken tok),
      Request_Body = None\<rparr>"

definition stale :: "env \<Rightarrow> GraphClient \<Rightarrow> world \<Rightarrow> bool" where
  "stale E g w = WantsToBeRefreshed (margin E) (token g) (clock w)"

definition refreshed_by :: "GraphClient \<Rightarrow> event list \<Rightarrow> GraphClient \<Rightarrow> bool" where
  "refreshed_by g pre g1 =
     (\<exists>t req. pre = [RefreshToken, Do req, WriteToken] \<and> Method req = ''POST'' \<and>
        g1 = g\<lparr>token := t\<rparr>)"

text \<open>
  The specification's configuration error is a missing identity field; these are the
  four errors with which the code reports an empty field.
\<close>

definition ConfigurationError :: "error \<Rightarrow> bool" where
  "ConfigurationError err =
     (err = ''Tenant ID is empty'' \<or> err = ''TenantID is empty'' \<or>
      err = ''ApplicationID is empty'' \<or> err = ''ClientSecret is empty'')"

subsection \<open>Test doubles\<close>

text \<open>
  A concrete environment, at which the theorems below are instantiated: stand-ins for
  the library (for URLs of scheme \<^verbatim>\<open>https\<close> and for keys and values that need no
  escaping), example constants, and mock servers in the role of the identity endpoint
  and the API.
\<close>

definition mock_ParseRequestURI :: "string \<Rightarrow> error + URL" where
  "mock_ParseRequestURI s =
     (if take 8 s = ''https://''
      then Inr \<lparr>Scheme = ''https'', Host = drop 8 s, Path = [], RawQuery = []\<rparr>
      else Inl ''invalid URI for request'')"

definition mock_URL_String :: "URL \<Rightarrow> string" where
  "mock_URL_String u =
     Scheme u @ ''://'' @ Host u @ Path u @ (if RawQuery u = [] then [] else CHR ''?'' # RawQuery u)"

fun join_amp :: "string list \<Rightarrow> string" where
  "join_amp [] = []"
| "join_amp [x] = x"
| "join_amp (x # y # zs) = x @ CHR ''&'' # join_amp (y # zs)"

definition mock_keys :: "string list" where
  "mock_keys = [''$top'', ''client_id'', ''client_secret'', ''enddatetime'', ''grant_type'',
     ''resource'', ''startdatetime'']"

definition mock_Values_Encode :: "Values \<Rightarrow> string" where
  "mock_Values_Encode v =
     join_amp (concat (map (\<lambda>k. map (\<lambda>x. k @ CHR ''='' # x)
       (case v k of None \<Rightarrow> [] | Some xs \<Rightarrow> xs)) mock_keys))"

definition mock_Unmarshal_Token :: "string \<Rightarrow> Token \<Rightarrow> error option \<times> Token" where
  "mock_Unmarshal_Token body old =
     (if body = ''{access_token:abc,expires_on:3600}''
      then (None, \<lparr>AccessToken = ''abc'', ExpiresOn = 3600\<rparr>)
      else (Some ''invalid character'', old))"

definition mock_Unmarshal_Config :: "string \<Rightarrow> error + Config" where
  "mock_Unmarshal_Config data =
     (if data = ''{}'' then
        Inr \<lparr>tmp_TenantID = [], tmp_ApplicationID = [], tmp_ClientSecret = []\<rparr>
      else if data = ''{TenantID:t1}'' then
        Inr \<lparr>tmp_TenantID = ''t1'', tmp_ApplicationID = [], tmp_ClientSecret = []\<rparr>
      else if data = ''{TenantID:t1,ApplicationID:a1,ClientSecret:s1}'' then
        Inr \<lparr>tmp_TenantID = ''t1'', tmp_ApplicationID = ''a1'', tmp_ClientSecret = ''s1''\<rparr>
      else Inl ''unexpected end of JSON input'')"

definition mock_env :: "(event list \<Rightarrow> Request \<Rightarrow> error + Response) \<Rightarrow> env" where
  "mock_env server =
     \<lparr>BaseURL = ''https://graph.microsoft.com'',
      LoginBaseURL = ''https://login.microsoftonline.com'',
      APIVersion = ''v1.0'', MaxPageSize = 999, margin = 10,
      ParseRequestURI = mock_ParseRequestURI, NewRequest_err = (\<lambda>method u. None),
      URL_String = mock_URL_String, Values_Encode = mock_Values_Encode,
      Client_Do = server, Unmarshal_Token = mock_Unmarshal_Token,
      Unmarshal_Config = mock_Unmarshal_Config\<rparr>"

text \<open>A server that answers every token request with a token and every other request with an empty object.\<close>

definition server_ok :: "event list \<Rightarrow> Request \<Rightarrow> error + Response" where
  "server_ok history req =
     (if Method req = ''POST''
      then Inr \<lparr>StatusCode = 200, Response_Body = ''{access_token:abc,expires_on:3600}'',
                ReadErr = None\<rparr>
      else Inr \<lparr>StatusCode = 200, Response_Body = ''{}'', ReadErr = None\<rparr>)"

text \<open>A server that answers every request with status 500.\<close>

definition server_500 :: "event list \<Rightarrow> Request \<Rightarrow> error + Response" where
  "server_500 history req =
     Inr \<lparr>StatusCode = 500, Response_Body = ''internal error'', ReadErr = None\<rparr>"

text \<open>A server whose answer has status 200 and breaks off while the body is read.\<close>

definition server_cut :: "event list \<Rightarrow> Request \<Rightarrow> error + Response" where
  "server_cut history req =
     Inr \<lparr>StatusCode = 200, Response_Body = ''{access_'', ReadErr = Some ''unexpected EOF''\<rparr>"

text \<open>Unmarshalling into a string variable that keeps the body as it is.\<close>

definition keep_body :: "string \<Rightarrow> string \<Rightarrow> error option \<times> string" where
  "keep_body body old = (None, body)"

definition world0 :: world where
  "world0 = \<lparr>clock = 100, trace = []\<rparr>"

definition world_at :: "int \<Rightarrow> world" where
  "world_at now = \<lparr>clock = now, trace = []\<rparr>"

definition config_data :: string where
  "config_data = ''{TenantID:t1,ApplicationID:a1,ClientSecret:s1}''"

definition client0 :: GraphClient where
  "client0 = \<lparr>apiCall = False, TenantID = [], ApplicationID = [], ClientSecret = [],
     token = Token_zero\<rparr>"

definition client1 :: GraphClient where
  "client1 = \<lparr>apiCall = False, TenantID = ''t1'', ApplicationID = ''a1'', ClientSecret = ''s1'',
     token = \<lparr>AccessToken = ''old'', ExpiresOn = 3600\<rparr>\<rparr>"

definition get_request :: Request where
  "get_request =
     \<lparr>Method = ''GET'',
      URL = \<lparr>Scheme = ''https'', Host = ''graph.microsoft.com'', Path = ''/v1.0/users'',
             RawQuery = ''$top=999''\<rparr>,
      Header = [''Content-Type'' \<mapsto> [''application/json''], ''Authorization'' \<mapsto> [''old'']],
      Request_Body = None\<rparr>"

section \<open>Properties of the builder\<close>

text \<open>The encoding on the test vectors of RFC 4648, section 10.\<close>

lemma b64_test_vectors:
  "StdEncoding_EncodeToString [] = []"
  "StdEncoding_EncodeToString ''f'' = ''Zg==''"
  "StdEncoding_EncodeToString ''fo'' = ''Zm8=''"
  "StdEncoding_EncodeToString ''foo'' = ''Zm9v''"
  "StdEncoding_EncodeToString ''foob'' = ''Zm9vYg==''"
  "StdEncoding_EncodeToString ''fooba'' = ''Zm9vYmE=''"
  "StdEncoding_EncodeToString ''foobar'' = ''Zm9vYmFy''"
  by (simp_all add: StdEncoding_EncodeToString_def encodeStd_def)

text \<open>Four groups of six bits for every three bytes, padded to a multiple of four.\<close>

lemma b64_length: "length (b64_groups bs) = 4 * ((length bs + 2) div 3)"
proof (induction bs rule: b64_groups.induct)
  case (4 a b c rest)
  have "(length rest + 5) div 3 = Suc ((length rest + 2) div 3)"
    by arith
  with 4 show ?case
    by (simp add: add.commute)
qed simp_all

lemma b64_example: "StdEncoding_EncodeToString example_content = ''YSxiCjEsMgo=''"
  by (simp add: StdEncoding_EncodeToString_def example_content_def encodeStd_def)

text \<open>
  Claim C7. For every mail \<open>m\<close>, \<^verbatim>\<open>AddRecipient\<close> called with no argument or with three
  or more arguments returns the argument-count error and leaves the whole of \<open>m\<close>, its
  To-list included, as it was.
\<close>

theorem AddRecipient_bad_arity:
  "length recipient = 0 \<or> 3 \<le> length recipient \<Longrightarrow>
   AddRecipient recipient m = (Some ''add recipient only accepts 1-2 arguments'', m)"
  by (auto simp: AddRecipient_def)

theorem AddRecipient_bad_arity_witness:
  "AddRecipient [] MakeMail = (Some ''add recipient only accepts 1-2 arguments'', MakeMail) \<and>
   AddRecipient [''a@x.com'', ''A'', ''extra''] MakeMail =
     (Some ''add recipient only accepts 1-2 arguments'', MakeMail) \<and>
   ToRecipients (Message (snd (AddRecipient [''a@x.com'', ''A'', ''extra''] MakeMail))) = []"
  using AddRecipient_bad_arity [of "[]" MakeMail]
    AddRecipient_bad_arity [of "[''a@x.com'', ''A'', ''extra'']" MakeMail]
  by (simp add: MakeMail_def)

text \<open>
  Claim C8. From a freshly constructed mail (\<^verbatim>\<open>MakeMail\<close> as well as \<^verbatim>\<open>NewMail\<close>), the calls
  \<^verbatim>\<open>AddRecipient("a@x.com")\<close>, \<^verbatim>\<open>AddRecipient("b@x.com","B Name")\<close>,
  \<^verbatim>\<open>Body("HTML","<b>hi</b>")\<close>, \<^verbatim>\<open>AddFileAttachment("f.csv","text/plain","a,b\n1,2\n")\<close>
  return no error and give a message whose To-list is exactly the two recipients in
  insertion order, the second with display name \<^verbatim>\<open>B Name\<close>; whose body has content type
  \<^verbatim>\<open>HTML\<close> and content \<^verbatim>\<open><b>hi</b>\<close>; and whose only attachment carries the
  file-attachment discriminator and, as content bytes, the standard base64 encoding of
  the content, which is \<^verbatim>\<open>YSxiCjEsMgo=\<close>.
\<close>

theorem build_example_message:
  "fst (build_example MakeMail) = None \<and> fst (snd (build_example MakeMail)) = None \<and>
   ToRecipients (Message (snd (snd (build_example MakeMail)))) =
     [\<lparr>EmailAddress = \<lparr>Address = ''a@x.com'', Name = []\<rparr>\<rparr>,
      \<lparr>EmailAddress = \<lparr>Address = ''b@x.com'', Name = ''B Name''\<rparr>\<rparr>] \<and>
   Body (Message (snd (snd (build_example MakeMail)))) =
     \<lparr>ContentType = ''HTML'', Content = ''<b>hi</b>''\<rparr> \<and>
   Attachments (Message (snd (snd (build_example MakeMail)))) =
     [\<lparr>DataType = ''#microsoft.graph.fileAttachment'', Attachment_Name = ''f.csv'',
       Attachment_ContentType = ''text/plain'',
       ContentBytes = StdEncoding_EncodeToString example_content\<rparr>] \<and>
   StdEncoding_EncodeToString example_content = ''YSxiCjEsMgo='' \<and>
   build_example NewMail = build_example MakeMail"
proof -
  have run: "build_example MakeMail =
    (None, None,
     \<lparr>Message = \<lparr>Subject = [], Body = \<lparr>ContentType = ''HTML'', Content = ''<b>hi</b>''\<rparr>,
        ToRecipients = [\<lparr>EmailAddress = \<lparr>Address = ''a@x.com'', Name = []\<rparr>\<rparr>,
          \<lparr>EmailAddress = \<lparr>Address = ''b@x.com'', Name = ''B Name''\<rparr>\<rparr>],
        CcRecipients = [], BccRecipients = [], From = Recipient_zero,
        Attachments = [\<lparr>DataType = ''#microsoft.graph.fileAttachment'',
          Attachment_Name = ''f.csv'', Attachment_ContentType = ''text/plain'',
          ContentBytes = StdEncoding_EncodeToString example_content\<rparr>]\<rparr>\<rparr>)"
    by (simp add: build_example_def AddRecipient_def Mail_Body_def AddFileAttachment_def
        MakeMail_def)
  have same: "build_example NewMail = build_example MakeMail"
    by (simp add: NewMail_def MakeMail_def)
  from b64_example same show ?thesis
    by (simp add: run)
qed

section \<open>Properties of the client\<close>

subsection \<open>The actions of each function\<close>

lemma events_since_append [simp]:
  "events_since w (w\<lparr>trace := trace w @ evs\<rparr>) = evs"
  by (simp add: events_since_def)

lemma performRequest_world:
  "snd (snd (performRequest E req um v w)) = emit (Do req) w"
  by (simp add: performRequest_def split: sum.splits option.splits)

lemma refreshToken_shape:
  obtains (failed) err evs where
      "refreshToken E g w = (Some err, g, w\<lparr>trace := trace w @ RefreshToken # evs\<rparr>)"
      "evs = [] \<or> (\<exists>req. evs = [Do req] \<and> Method req = ''POST'')"
      "(evs = [] \<and> (TenantID g = [] \<and> err = ''Tenant ID is empty'' \<or>
                     TenantID g \<noteq> [] \<and> (\<exists>e. err = ''Unable to parse URI: '' @ e) \<or>
                     TenantID g \<noteq> [] \<and> (\<exists>e. err = ''HTTP Request Error: '' @ e))) \<or>
       (TenantID g \<noteq> [] \<and> (\<exists>u. evs = [Do (token_request E u g)]) \<and>
          (\<exists>e. err = ''Error on getting msgraph Token: '' @ e))"
  | (refreshed) t u where
      "refreshToken E g w =
         (None, g\<lparr>token := t\<rparr>,
          w\<lparr>trace := trace w @ [RefreshToken, Do (token_request E u g), WriteToken]\<rparr>)"
      "TenantID g \<noteq> []"
proof (cases "TenantID g = []")
  case True
  then have "refreshToken E g w =
      (Some ''Tenant ID is empty'', g, w\<lparr>trace := trace w @ RefreshToken # []\<rparr>)"
    by (simp add: refreshToken_def emit_def)
  with True show ?thesis using failed by blast
next
  case tenant: False
  show ?thesis
  proof (cases "ParseRequestURI E (LoginBaseURL E)")
    case (Inl e)
    with tenant have "refreshToken E g w =
        (Some (''Unable to parse URI: '' @ e), g, w\<lparr>trace := trace w @ RefreshToken # []\<rparr>)"
      by (simp add: refreshToken_def emit_def)
    with tenant show ?thesis using failed by blast
  next
    case (Inr u)
    let ?u = "u\<lparr>Path := ''/'' @ TenantID g @ ''/oauth2/token''\<rparr>"
    show ?thesis
    proof (cases "NewRequest_err E ''POST'' ?u")
      case (Some e)
      with tenant Inr have "refreshToken E g w =
          (Some (''HTTP Request Error: '' @ e), g, w\<lparr>trace := trace w @ RefreshToken # []\<rparr>)"
        by (simp add: refreshToken_def emit_def NewRequest_def)
      with tenant show ?thesis using failed by blast
    next
      case None
      let ?req = "token_request E u g"
      obtain e t w1 where
        pr: "performRequest E ?req (Unmarshal_Token E) Token_zero (emit RefreshToken w) = (e, t, w1)"
        by (cases "performRequest E ?req (Unmarshal_Token E) Token_zero (emit RefreshToken w)")
      from performRequest_world [of E ?req "Unmarshal_Token E" Token_zero "emit RefreshToken w"] pr
      have w1: "w1 = w\<lparr>trace := trace w @ [RefreshToken, Do ?req]\<rparr>"
        by (simp add: emit_def)
      have unfolded: "refreshToken E g w =
         (case e of Some err \<Rightarrow> (Some (''Error on getting msgraph Token: '' @ err), g, w1)
          | None \<Rightarrow> (None, g\<lparr>token := t\<rparr>, emit WriteToken w1))"
        using tenant Inr None pr
        by (simp add: refreshToken_def NewRequest_def token_request_def Let_def
            split: option.splits)
      show ?thesis
      proof (cases e)
        case None
        with unfolded w1 have "refreshToken E g w =
           (None, g\<lparr>token := t\<rparr>, w\<lparr>trace := trace w @ [RefreshToken, Do ?req, WriteToken]\<rparr>)"
          by (simp add: emit_def)
        with tenant show ?thesis using refreshed by blast
      next
        case (Some err)
        with unfolded w1 have "refreshToken E g w =
           (Some (''Error on getting msgraph Token: '' @ err), g,
            w\<lparr>trace := trace w @ RefreshToken # [Do ?req]\<rparr>)"
          by simp
        moreover have "Method ?req = ''POST''"
          by (simp add: token_request_def)
        ultimately show ?thesis using tenant failed by blast
      qed
    qed
  qed
qed

lemma makeGETAPICall_locked_shape:
  obtains (refresh_failed) err evs where
      "stale E g w"
      "makeGETAPICall_locked E apicall getParams um v g w =
         (Some err, v, g, w\<lparr>trace := trace w @ ReadToken # RefreshToken # evs\<rparr>)"
      "evs = [] \<or> (\<exists>req. evs = [Do req] \<and> Method req = ''POST'')"
  | (not_sent) err pre g1 where
      "makeGETAPICall_locked E apicall getParams um v g w =
         (Some err, v, g1, w\<lparr>trace := trace w @ ReadToken # pre\<rparr>)"
      "if stale E g w then refreshed_by g pre g1 else pre = [] \<and> g1 = g"
  | (sent) err v' pre g1 u where
      "makeGETAPICall_locked E apicall getParams um v g w =
         (err, v', g1, w\<lparr>trace := trace w @ ReadToken # pre @
            [ReadToken, Do (api_request E u apicall getParams (token g1))]\<rparr>)"
      "if stale E g w then refreshed_by g pre g1 else pre = [] \<and> g1 = g"
      "ParseRequestURI E (BaseURL E) = Inr u"
proof -
  let ?w1 = "emit ReadToken w"
  \<comment> \<open>what follows the refresh step, from the client and world it leaves\<close>
  have rest: thesis
    if pre: "if stale E g w then refreshed_by g pre g1 else pre = [] \<and> g1 = g"
    and step: "(if stale E g w then refreshToken E g ?w1 else (None, g, ?w1)) =
         (None, g1, w\<lparr>trace := trace w @ ReadToken # pre\<rparr>)"
    for pre g1
  proof (cases "ParseRequestURI E (BaseURL E)")
    case (Inl e)
    with step have "makeGETAPICall_locked E apicall getParams um v g w =
        (Some (''Unable to parse URI '' @ BaseURL E @ '': '' @ e), v, g1,
         w\<lparr>trace := trace w @ ReadToken # pre\<rparr>)"
      by (simp add: makeGETAPICall_locked_def stale_def Let_def)
    with pre show ?thesis using not_sent by blast
  next
    case (Inr u)
    show ?thesis
    proof (cases "NewRequest_err E ''GET'' (u\<lparr>Path := ''/'' @ APIVersion E @ apicall\<rparr>)")
      case (Some e)
      with step Inr have "makeGETAPICall_locked E apicall getParams um v g w =
          (Some (''HTTP request error: '' @ e), v, g1, w\<lparr>trace := trace w @ ReadToken # pre\<rparr>)"
        by (simp add: makeGETAPICall_locked_def stale_def Let_def NewRequest_def)
      with pre show ?thesis using not_sent by blast
    next
      case None
      let ?req = "api_request E u apicall getParams (token g1)"
      let ?w3 = "emit ReadToken (w\<lparr>trace := trace w @ ReadToken # pre\<rparr>)"
      obtain e v' w4 where pr: "performRequest E ?req um v ?w3 = (e, v', w4)"
        by (cases "performRequest E ?req um v ?w3")
      from performRequest_world [of E ?req um v ?w3] pr
      have w4: "w4 = w\<lparr>trace := trace w @ ReadToken # pre @ [ReadToken, Do ?req]\<rparr>"
        by (simp add: emit_def)
      from step Inr None pr
      have "makeGETAPICall_locked E apicall getParams um v g w = (e, v', g1, w4)"
        by (simp add: makeGETAPICall_locked_def stale_def Let_def NewRequest_def api_request_def)
      with w4 pre Inr show ?thesis using sent by blast
    qed
  qed
  show ?thesis
  proof (cases "stale E g w")
    case False
    then have "(if stale E g w then refreshToken E g ?w1 else (None, g, ?w1)) =
         (None, g, w\<lparr>trace := trace w @ ReadToken # []\<rparr>)"
      by (simp add: emit_def)
    with False show ?thesis using rest [of "[]" g] by simp
  next
    case True
    show ?thesis
    proof (cases rule: refreshToken_shape [of E g ?w1])
      case (failed err evs)
      with True have "makeGETAPICall_locked E apicall getParams um v g w =
          (Some err, v, g, w\<lparr>trace := trace w @ ReadToken # RefreshToken # evs\<rparr>)"
        by (simp add: makeGETAPICall_locked_def stale_def Let_def emit_def)
      with True failed(2) show ?thesis using refresh_failed by blast
    next
      case (refreshed t u)
      let ?pre = "[RefreshToken, Do (token_request E u (g::GraphClient)), WriteToken]"
      from True refreshed have step:
        "(if stale E g w then refreshToken E g ?w1 else (None, g, ?w1)) =
          (None, g\<lparr>token := t\<rparr>, w\<lparr>trace := trace w @ ReadToken # ?pre\<rparr>)"
        by (simp add: emit_def)
      from True
      have "if stale E g w then refreshed_by g ?pre (g\<lparr>token := t\<rparr>)
            else ?pre = [] \<and> g\<lparr>token := t\<rparr> = g"
        by (auto simp: refreshed_by_def token_request_def)
      from rest [OF this step] show ?thesis .
    qed
  qed
qed

subsection \<open>Results of the calls\<close>

lemma itoa_500: "itoa 500 = ''500''"
  by (simp add: itoa_def itoa_nat.simps)

text \<open>
  Claim C2. Whenever \<^verbatim>\<open>refreshToken\<close> returns an error, whatever the cause (empty tenant
  identifier, URL that does not parse, request that cannot be built, transport failure,
  status outside 200-299, body that cannot be read or decoded), the client is returned
  as it was; in particular its token is the one it had, and the call made no assignment
  to the token.
\<close>

theorem refreshToken_failure_keeps_token:
  assumes "fst (refreshToken E g w) \<noteq> None"
  shows "fst (snd (refreshToken E g w)) = g \<and>
         token (fst (snd (refreshToken E g w))) = token g \<and>
         WriteToken \<notin> set (events_since w (snd (snd (refreshToken E g w))))"
proof (cases rule: refreshToken_shape [of E g w])
  case (failed err evs)
  then show ?thesis by auto
next
  case (refreshed t req)
  with assms show ?thesis by simp
qed

theorem refreshToken_failure_keeps_token_witness:
  "fst (refreshToken (mock_env server_500) client1 world0) =
     Some ''Error on getting msgraph Token: StatusCode is not OK: 500. Body: internal error '' \<and>
   token (fst (snd (refreshToken (mock_env server_500) client1 world0))) =
     \<lparr>AccessToken = ''old'', ExpiresOn = 3600\<rparr> \<and>
   fst (refreshToken (mock_env server_500) client0 world0) = Some ''Tenant ID is empty'' \<and>
   fst (snd (refreshToken (mock_env server_500) client0 world0)) = client0"
proof -
  have run1: "fst (refreshToken (mock_env server_500) client1 world0) =
     Some ''Error on getting msgraph Token: StatusCode is not OK: 500. Body: internal error ''"
    by (simp add: refreshToken_def performRequest_def mock_env_def server_500_def client1_def
        world0_def mock_ParseRequestURI_def NewRequest_def itoa_500 Let_def)
  have run0: "fst (refreshToken (mock_env server_500) client0 world0) = Some ''Tenant ID is empty''"
    by (simp add: refreshToken_def client0_def Let_def)
  from run1 have "fst (refreshToken (mock_env server_500) client1 world0) \<noteq> None"
    by simp
  from refreshToken_failure_keeps_token [OF this]
  have kept1: "token (fst (snd (refreshToken (mock_env server_500) client1 world0))) = token client1"
    by simp
  from run0 have "fst (refreshToken (mock_env server_500) client0 world0) \<noteq> None"
    by simp
  from refreshToken_failure_keeps_token [OF this]
  have kept0: "fst (snd (refreshToken (mock_env server_500) client0 world0)) = client0"
    by simp
  show ?thesis
    using run1 run0 kept1 kept0 by (simp add: client1_def)
qed

text \<open>A text occurs in every text built around it.\<close>

lemma sublist_mid: "sublist b (a @ b @ c)"
  by (auto simp: sublist_def)

text \<open>
  Claim C5, as amended. For every response \<^verbatim>\<open>httpClient.Do\<close> returns to
  \<^verbatim>\<open>performRequest\<close>: if the status code is outside 200-299, the result is the error
  made of the status code and the body text as read, whatever the decoding would do, and
  the caller's value is untouched; if the status code is within 200-299 and reading the
  body failed, the result is the read error and the caller's value is untouched; and if
  the status code is within 200-299 and the body was read, the body is decoded into the
  caller's value and the result is exactly the decoding's error.
\<close>

theorem performRequest_on_response:
  assumes "Client_Do E (trace w) req = Inr resp"
  shows "(StatusCode resp < 200 \<or> 299 < StatusCode resp \<longrightarrow>
           (\<exists>msg. performRequest E req um v w = (Some msg, v, emit (Do req) w) \<and>
              msg = ''StatusCode is not OK: '' @ itoa (StatusCode resp) @ ''. Body: '' @
                    Response_Body resp @ '' '' \<and>
              sublist (itoa (StatusCode resp)) msg \<and> sublist (Response_Body resp) msg)) \<and>
         (200 \<le> StatusCode resp \<and> StatusCode resp \<le> 299 \<longrightarrow>
           (case ReadErr resp of
              Some rerr \<Rightarrow>
                performRequest E req um v w =
                  (Some (''HTTP response read error: '' @ rerr @ '' of http.Request: '' @
                         URL_String E (URL req)), v, emit (Do req) w)
            | None \<Rightarrow>
                performRequest E req um v w =
                  (fst (um (Response_Body resp) v), snd (um (Response_Body resp) v),
                   emit (Do req) w)))"
proof -
  have c1: "sublist (itoa (StatusCode resp))
      (''StatusCode is not OK: '' @ itoa (StatusCode resp) @ ''. Body: '' @ Response_Body resp @ '' '')"
    by (rule sublist_mid)
  have "sublist (Response_Body resp)
      ((''StatusCode is not OK: '' @ itoa (StatusCode resp) @ ''. Body: '') @ Response_Body resp @ '' '')"
    by (rule sublist_mid)
  then have c2: "sublist (Response_Body resp)
      (''StatusCode is not OK: '' @ itoa (StatusCode resp) @ ''. Body: '' @ Response_Body resp @ '' '')"
    by simp
  show ?thesis
    using assms c1 c2 by (auto simp: performRequest_def split: option.splits)
qed

theorem performRequest_on_response_witness:
  "performRequest (mock_env server_500) get_request keep_body [] world0 =
     (Some ''StatusCode is not OK: 500. Body: internal error '', [], emit (Do get_request) world0) \<and>
   performRequest (mock_env server_cut) get_request keep_body [] world0 =
     (Some ''HTTP response read error: unexpected EOF of http.Request: https://graph.microsoft.com/v1.0/users?$top=999'',
      [], emit (Do get_request) world0) \<and>
   performRequest (mock_env server_ok) get_request keep_body [] world0 =
     (None, ''{}'', emit (Do get_request) world0)"
proof -
  have r500: "Client_Do (mock_env server_500) (trace world0) get_request =
      Inr \<lparr>StatusCode = 500, Response_Body = ''internal error'', ReadErr = None\<rparr>"
    by (simp add: mock_env_def server_500_def)
  have rcut: "Client_Do (mock_env server_cut) (trace world0) get_request =
      Inr \<lparr>StatusCode = 200, Response_Body = ''{access_'', ReadErr = Some ''unexpected EOF''\<rparr>"
    by (simp add: mock_env_def server_cut_def)
  have rok: "Client_Do (mock_env server_ok) (trace world0) get_request =
      Inr \<lparr>StatusCode = 200, Response_Body = ''{}'', ReadErr = None\<rparr>"
    by (simp add: mock_env_def server_ok_def get_request_def)
  have url: "URL_String (mock_env server_cut) (URL get_request) =
      ''https://graph.microsoft.com/v1.0/users?$top=999''"
    by (simp add: mock_env_def mock_URL_String_def get_request_def)
  show ?thesis
    using performRequest_on_response [OF r500, of keep_body "[]"]
      performRequest_on_response [OF rcut, of keep_body "[]"]
      performRequest_on_response [OF rok, of keep_body "[]"]
    by (simp add: itoa_500 url keep_body_def)
qed

text \<open>
  The claim C5 as it was stated fails on a response of status 200 whose body breaks off
  while it is read: the error returned is not the decoding's, and nothing is decoded.
\<close>

theorem performRequest_read_error_counterexample:
  "Client_Do (mock_env server_cut) (trace world0) get_request =
     Inr \<lparr>StatusCode = 200, Response_Body = ''{access_'', ReadErr = Some ''unexpected EOF''\<rparr> \<and>
   fst (performRequest (mock_env server_cut) get_request keep_body [] world0) \<noteq>
     fst (keep_body ''{access_'' []) \<and>
   fst (snd (performRequest (mock_env server_cut) get_request keep_body [] world0)) \<noteq>
     snd (keep_body ''{access_'' [])"
  by (simp add: performRequest_def mock_env_def server_cut_def keep_body_def)

subsection \<open>Construction\<close>

lemma requests_append [simp]: "requests (xs @ ys) = requests xs @ requests ys"
  by (induction xs rule: requests.induct) simp_all

text \<open>What \<^verbatim>\<open>NewGraphClient\<close> does is the refresh of the fresh client under the mutex.\<close>

lemma NewGraphClient_unfold:
  assumes "refreshToken E \<lparr>apiCall = True, TenantID = tenantID, ApplicationID = applicationID,
      ClientSecret = clientSecret, token = Token_zero\<rparr> (emit Lock w) =
      (err, g1, w\<lparr>trace := trace w @ Lock # evs\<rparr>)"
  shows "NewGraphClient E tenantID applicationID clientSecret w =
      (g1\<lparr>apiCall := False\<rparr>, err, w\<lparr>trace := trace w @ Lock # evs @ [Unlock]\<rparr>)"
  using assms by (simp add: NewGraphClient_def emit_def)

text \<open>
  Claim C4. When the tenant identifier, the application identifier and the client secret
  are all empty, \<^verbatim>\<open>NewGraphClient\<close> returns the empty-tenant error and its actions hold
  no request; and \<^verbatim>\<open>UnmarshalJSON\<close>, on data that decode to three empty fields,
  returns the empty-tenant error and leaves the world as it was: no request was made.
\<close>

theorem empty_identity_rejected:
  "fst (snd (NewGraphClient E [] [] [] w)) = Some ''Tenant ID is empty'' \<and>
   requests (events_since w (snd (snd (NewGraphClient E [] [] [] w)))) = [] \<and>
   (Unmarshal_Config E data =
      Inr \<lparr>tmp_TenantID = [], tmp_ApplicationID = [], tmp_ClientSecret = []\<rparr> \<longrightarrow>
    fst (UnmarshalJSON E data g w) = Some ''TenantID is empty'' \<and>
    snd (snd (UnmarshalJSON E data g w)) = w)"
proof -
  have "NewGraphClient E [] [] [] w =
      (\<lparr>apiCall = False, TenantID = [], ApplicationID = [], ClientSecret = [],
        token = Token_zero\<rparr>, Some ''Tenant ID is empty'',
       w\<lparr>trace := trace w @ [Lock, RefreshToken, Unlock]\<rparr>)"
    by (simp add: NewGraphClient_def refreshToken_def emit_def)
  moreover have "fst (UnmarshalJSON E data g w) = Some ''TenantID is empty'' \<and>
      snd (snd (UnmarshalJSON E data g w)) = w"
    if "Unmarshal_Config E data =
      Inr \<lparr>tmp_TenantID = [], tmp_ApplicationID = [], tmp_ClientSecret = []\<rparr>"
    using that by (simp add: UnmarshalJSON_def)
  ultimately show ?thesis by simp
qed

theorem empty_identity_rejected_witness:
  "fst (snd (NewGraphClient (mock_env server_ok) [] [] [] world0)) = Some ''Tenant ID is empty'' \<and>
   requests (events_since world0 (snd (snd (NewGraphClient (mock_env server_ok) [] [] [] world0)))) = [] \<and>
   fst (UnmarshalJSON (mock_env server_ok) ''{}'' client1 world0) = Some ''TenantID is empty'' \<and>
   snd (snd (UnmarshalJSON (mock_env server_ok) ''{}'' client1 world0)) = world0"
  using empty_identity_rejected [of "mock_env server_ok" world0 "''{}''" client1]
  by (simp add: mock_env_def mock_Unmarshal_Config_def)

text \<open>
  Claim C10. \<^verbatim>\<open>NewGraphClient\<close> checks the tenant identifier only. With a tenant identifier
  that is not empty, whatever the application identifier and the client secret are
  (empty or not), an error it returns is never an empty-field error, and if its actions
  hold no request then the login URL did not parse or the request could not be built;
  otherwise the token request was handed to the network. \<^verbatim>\<open>UnmarshalJSON\<close>, on data that
  decode to fields of which any one is empty, returns an empty-field error and leaves the
  world as it was: no request was made.
\<close>

theorem NewGraphClient_checks_tenant_only:
  "(tenantID \<noteq> [] \<longrightarrow>
      (\<forall>err. fst (snd (NewGraphClient E tenantID applicationID clientSecret w)) = Some err \<longrightarrow>
         \<not> ConfigurationError err) \<and>
      (requests (events_since w (snd (snd (NewGraphClient E tenantID applicationID clientSecret w)))) = [] \<longrightarrow>
         (\<exists>e. fst (snd (NewGraphClient E tenantID applicationID clientSecret w)) =
                 Some (''Unable to parse URI: '' @ e) \<or>
               fst (snd (NewGraphClient E tenantID applicationID clientSecret w)) =
                 Some (''HTTP Request Error: '' @ e)))) \<and>
   (Unmarshal_Config E data = Inr tmp \<and>
      (tmp_TenantID tmp = [] \<or> tmp_ApplicationID tmp = [] \<or> tmp_ClientSecret tmp = []) \<longrightarrow>
      (\<exists>err. fst (UnmarshalJSON E data g w) = Some err \<and> ConfigurationError err) \<and>
      snd (snd (UnmarshalJSON E data g w)) = w)"
proof (intro conjI impI)
  let ?g = "\<lparr>apiCall = True, TenantID = tenantID, ApplicationID = applicationID,
      ClientSecret = clientSecret, token = Token_zero\<rparr>"
  let ?new = "NewGraphClient E tenantID applicationID clientSecret w"
  assume tenant: "tenantID \<noteq> []"
  have "(\<forall>err. fst (snd ?new) = Some err \<longrightarrow> \<not> ConfigurationError err) \<and>
        (requests (events_since w (snd (snd ?new))) = [] \<longrightarrow>
          (\<exists>e. fst (snd ?new) = Some (''Unable to parse URI: '' @ e) \<or>
                fst (snd ?new) = Some (''HTTP Request Error: '' @ e)))"
  proof (cases rule: refreshToken_shape [of E ?g "emit Lock w"])
    case (failed err evs)
    from failed(1) have "refreshToken E ?g (emit Lock w) =
        (Some err, ?g, w\<lparr>trace := trace w @ Lock # RefreshToken # evs\<rparr>)"
      by (simp add: emit_def)
    from NewGraphClient_unfold [OF this]
    have new: "?new = (?g\<lparr>apiCall := False\<rparr>, Some err,
        w\<lparr>trace := trace w @ Lock # (RefreshToken # evs) @ [Unlock]\<rparr>)" .
    from failed(3) tenant show ?thesis
      unfolding new by (auto simp: ConfigurationError_def)
  next
    case (refreshed t u)
    from refreshed(1) have "refreshToken E ?g (emit Lock w) =
        (None, ?g\<lparr>token := t\<rparr>,
         w\<lparr>trace := trace w @ Lock # [RefreshToken, Do (token_request E u ?g), WriteToken]\<rparr>)"
      by (simp add: emit_def)
    from NewGraphClient_unfold [OF this]
    have new: "?new = (?g\<lparr>token := t, apiCall := False\<rparr>, None,
        w\<lparr>trace := trace w @ Lock # [RefreshToken, Do (token_request E u ?g), WriteToken] @ [Unlock]\<rparr>)"
      by simp
    show ?thesis unfolding new by simp
  qed
  then show "\<forall>err. fst (snd ?new) = Some err \<longrightarrow> \<not> ConfigurationError err"
    and "requests (events_since w (snd (snd ?new))) = [] \<Longrightarrow>
          \<exists>e. fst (snd ?new) = Some (''Unable to parse URI: '' @ e) \<or>
               fst (snd ?new) = Some (''HTTP Request Error: '' @ e)"
    by blast+
next
  assume "Unmarshal_Config E data = Inr tmp \<and>
      (tmp_TenantID tmp = [] \<or> tmp_ApplicationID tmp = [] \<or> tmp_ClientSecret tmp = [])"
  then show "\<exists>err. fst (UnmarshalJSON E data g w) = Some err \<and> ConfigurationError err"
    and "snd (snd (UnmarshalJSON E data g w)) = w"
    by (auto simp: UnmarshalJSON_def ConfigurationError_def Let_def)
qed

theorem NewGraphClient_checks_tenant_only_witness:
  "fst (snd (NewGraphClient (mock_env server_500) ''t1'' [] [] world0)) =
     Some ''Error on getting msgraph Token: StatusCode is not OK: 500. Body: internal error '' \<and>
   \<not> ConfigurationError
     ''Error on getting msgraph Token: StatusCode is not OK: 500. Body: internal error '' \<and>
   requests (events_since world0 (snd (snd (NewGraphClient (mock_env server_500) ''t1'' [] [] world0)))) \<noteq> [] \<and>
   fst (UnmarshalJSON (mock_env server_500) ''{TenantID:t1}'' client0 world0) =
     Some ''ApplicationID is empty'' \<and>
   ConfigurationError ''ApplicationID is empty'' \<and>
   snd (snd (UnmarshalJSON (mock_env server_500) ''{TenantID:t1}'' client0 world0)) = world0"
proof -
  let ?E = "mock_env server_500"
  have run: "fst (snd (NewGraphClient ?E ''t1'' [] [] world0)) =
     Some ''Error on getting msgraph Token: StatusCode is not OK: 500. Body: internal error ''"
    by (simp add: NewGraphClient_def refreshToken_def performRequest_def mock_env_def
        server_500_def mock_ParseRequestURI_def NewRequest_def itoa_500 Let_def emit_def
        split: prod.splits)
  have sent: "requests (events_since world0 (snd (snd (NewGraphClient ?E ''t1'' [] [] world0)))) \<noteq> []"
    by (simp add: NewGraphClient_def refreshToken_def performRequest_def mock_env_def
        server_500_def mock_ParseRequestURI_def NewRequest_def Let_def emit_def events_since_def
        world0_def split: prod.splits)
  have cfg: "Unmarshal_Config ?E ''{TenantID:t1}'' =
      Inr \<lparr>tmp_TenantID = ''t1'', tmp_ApplicationID = [], tmp_ClientSecret = []\<rparr>"
    by (simp add: mock_env_def mock_Unmarshal_Config_def)
  have json: "fst (UnmarshalJSON ?E ''{TenantID:t1}'' client0 world0) = Some ''ApplicationID is empty''"
    by (simp add: UnmarshalJSON_def cfg Let_def)
  note inst = NewGraphClient_checks_tenant_only [of "''t1''" ?E "[]" "[]" world0 "''{TenantID:t1}''"
      "\<lparr>tmp_TenantID = ''t1'', tmp_ApplicationID = [], tmp_ClientSecret = []\<rparr>" client0]
  from inst run have no_cfg: "\<not> ConfigurationError
     ''Error on getting msgraph Token: StatusCode is not OK: 500. Body: internal error ''"
    by simp
  from inst cfg json have rejected: "ConfigurationError ''ApplicationID is empty'' \<and>
      snd (snd (UnmarshalJSON ?E ''{TenantID:t1}'' client0 world0)) = world0"
    by simp
  show ?thesis using run sent json no_cfg rejected by simp
qed

subsection \<open>Calls through the gate\<close>

lemma stale_locked [simp]: "stale E (g\<lparr>apiCall := True\<rparr>) (emit Lock w) = stale E g w"
  by (simp add: stale_def emit_def)

lemma released:
  assumes "\<not> apiCall g"
  shows "g\<lparr>apiCall := False\<rparr> = g"
    and "g\<lparr>token := t, apiCall := False\<rparr> = g\<lparr>token := t\<rparr>"
  using assms by (cases g; simp)+

lemma makeGETAPICall_unfold:
  assumes "\<not> apiCall g"
    and "makeGETAPICall_locked E apicall getParams um v (g\<lparr>apiCall := True\<rparr>) (emit Lock w) =
      (err, v', g1, (emit Lock w)\<lparr>trace := trace (emit Lock w) @ evs\<rparr>)"
  shows "makeGETAPICall E apicall getParams um v g w =
      Some (err, v', g1\<lparr>apiCall := False\<rparr>, w\<lparr>trace := trace w @ Lock # evs @ [Unlock]\<rparr>)"
  using assms by (simp add: makeGETAPICall_def emit_def)

text \<open>
  The outcomes of \<^verbatim>\<open>makeGETAPICall\<close> on a free mutex: the actions between \<^verbatim>\<open>Lock\<close> and
  \<^verbatim>\<open>Unlock\<close> are the staleness check, the refresh if the token is stale, and, unless an
  error came first, the read of the token for the header and the request.
\<close>

lemma makeGETAPICall_shape:
  assumes free: "\<not> apiCall g"
  obtains (refresh_failed) err evs where
      "stale E g w"
      "makeGETAPICall E apicall getParams um v g w =
         Some (Some err, v, g,
           w\<lparr>trace := trace w @ Lock # ReadToken # RefreshToken # evs @ [Unlock]\<rparr>)"
      "evs = [] \<or> (\<exists>req. evs = [Do req] \<and> Method req = ''POST'')"
  | (not_sent) err pre g1 where
      "makeGETAPICall E apicall getParams um v g w =
         Some (Some err, v, g1, w\<lparr>trace := trace w @ Lock # ReadToken # pre @ [Unlock]\<rparr>)"
      "if stale E g w then refreshed_by g pre g1 else pre = [] \<and> g1 = g"
  | (sent) err v' pre g1 u where
      "makeGETAPICall E apicall getParams um v g w =
         Some (err, v', g1, w\<lparr>trace := trace w @ Lock # ReadToken # pre @
            [ReadToken, Do (api_request E u apicall getParams (token g1)), Unlock]\<rparr>)"
      "if stale E g w then refreshed_by g pre g1 else pre = [] \<and> g1 = g"
      "ParseRequestURI E (BaseURL E) = Inr u"
proof (cases rule: makeGETAPICall_locked_shape
    [of E "g\<lparr>apiCall := True\<rparr>" "emit Lock w" apicall getParams um v])
  case (refresh_failed err evs)
  from makeGETAPICall_unfold [OF free refresh_failed(2)] free
  have "makeGETAPICall E apicall getParams um v g w =
      Some (Some err, v, g, w\<lparr>trace := trace w @ Lock # ReadToken # RefreshToken # evs @ [Unlock]\<rparr>)"
    by simp
  with refresh_failed(1,3) show ?thesis using that(1) by simp
next
  case (not_sent err pre g1')
  from makeGETAPICall_unfold [OF free not_sent(1)]
  have call: "makeGETAPICall E apicall getParams um v g w =
      Some (Some err, v, g1'\<lparr>apiCall := False\<rparr>,
        w\<lparr>trace := trace w @ Lock # ReadToken # pre @ [Unlock]\<rparr>)"
    by simp
  from not_sent(2) free
  have "if stale E g w then refreshed_by g pre (g1'\<lparr>apiCall := False\<rparr>)
        else pre = [] \<and> g1'\<lparr>apiCall := False\<rparr> = g"
    by (auto simp: refreshed_by_def released split: if_splits)
  with call show ?thesis using that(2) by blast
next
  case (sent err v' pre g1' u)
  from makeGETAPICall_unfold [OF free sent(1)]
  have call: "makeGETAPICall E apicall getParams um v g w =
      Some (err, v', g1'\<lparr>apiCall := False\<rparr>,
        w\<lparr>trace := trace w @ Lock # ReadToken # pre @
          [ReadToken, Do (api_request E u apicall getParams (token (g1'\<lparr>apiCall := False\<rparr>))),
           Unlock]\<rparr>)"
    by simp
  from sent(2) free
  have "if stale E g w then refreshed_by g pre (g1'\<lparr>apiCall := False\<rparr>)
        else pre = [] \<and> g1'\<lparr>apiCall := False\<rparr> = g"
    by (auto simp: refreshed_by_def released split: if_splits)
  with call sent(3) show ?thesis using that(3) by blast
qed

text \<open>
  Claim C3. For a credential with expiry instant \<open>T\<close> and a call of \<^verbatim>\<open>makeGETAPICall\<close> at
  time \<open>now\<close> on a free mutex: the call returns; its first action after taking the mutex
  is the staleness check; and \<^verbatim>\<open>refreshToken\<close> is entered if and only if \<open>now\<close> has
  reached \<open>T\<close> minus the safety margin, in which case it is entered once, directly after
  the check. A call strictly before that boundary never enters \<^verbatim>\<open>refreshToken\<close>. (All
  actions are those of calls; nothing runs in the background.)
\<close>

theorem refresh_iff_stale:
  assumes "\<not> apiCall g"
  shows "\<exists>err v' g' evs.
    makeGETAPICall E apicall getParams um v g w =
      Some (err, v', g', w\<lparr>trace := trace w @ Lock # ReadToken # evs\<rparr>) \<and>
    (if ExpiresOn (token g) - margin E \<le> clock w
     then \<exists>rest. evs = RefreshToken # rest \<and> RefreshToken \<notin> set rest
     else RefreshToken \<notin> set evs)"
  using assms
proof (cases rule: makeGETAPICall_shape
    [where E = E and w = w and apicall = apicall and getParams = getParams and um = um and v = v])
  case (refresh_failed err evs)
  from refresh_failed(1,3) have "if ExpiresOn (token g) - margin E \<le> clock w
     then \<exists>rest. RefreshToken # evs @ [Unlock] = RefreshToken # rest \<and> RefreshToken \<notin> set rest
     else RefreshToken \<notin> set (RefreshToken # evs @ [Unlock])"
    by (auto simp: stale_def WantsToBeRefreshed_def)
  with refresh_failed(2) show ?thesis by blast
next
  case (not_sent err pre g1)
  from not_sent(2) have "if ExpiresOn (token g) - margin E \<le> clock w
     then \<exists>rest. pre @ [Unlock] = RefreshToken # rest \<and> RefreshToken \<notin> set rest
     else RefreshToken \<notin> set (pre @ [Unlock])"
    by (auto simp: stale_def WantsToBeRefreshed_def refreshed_by_def split: if_splits)
  with not_sent(1) show ?thesis by blast
next
  case (sent err v' pre g1 u)
  let ?evs = "pre @ [ReadToken, Do (api_request E u apicall getParams (token g1)), Unlock]"
  from sent(2) have "if ExpiresOn (token g) - margin E \<le> clock w
     then \<exists>rest. ?evs = RefreshToken # rest \<and> RefreshToken \<notin> set rest
     else RefreshToken \<notin> set ?evs"
    by (auto simp: stale_def WantsToBeRefreshed_def refreshed_by_def split: if_splits)
  with sent(1) show ?thesis by blast
qed

theorem refresh_iff_stale_witness:
  "(\<exists>err v' g' evs.
      makeGETAPICall (mock_env server_ok) ''/users'' None keep_body [] client1 (world_at 3589) =
        Some (err, v', g', (world_at 3589)\<lparr>trace := Lock # ReadToken # evs\<rparr>) \<and>
      RefreshToken \<notin> set evs) \<and>
   (\<exists>err v' g' rest.
      makeGETAPICall (mock_env server_ok) ''/users'' None keep_body [] client1 (world_at 3590) =
        Some (err, v', g', (world_at 3590)\<lparr>trace := Lock # ReadToken # RefreshToken # rest\<rparr>) \<and>
      RefreshToken \<notin> set rest)"
proof -
  have free: "\<not> apiCall client1"
    by (simp add: client1_def)
  have before: "\<not> ExpiresOn (token client1) - margin (mock_env server_ok) \<le> clock (world_at 3589)"
    by (simp add: client1_def mock_env_def world_at_def)
  have reached: "ExpiresOn (token client1) - margin (mock_env server_ok) \<le> clock (world_at 3590)"
    by (simp add: client1_def mock_env_def world_at_def)
  have empty: "trace (world_at now) = []" for now
    by (simp add: world_at_def)
  from refresh_iff_stale [OF free, of "mock_env server_ok" "''/users''" None keep_body "[]" "world_at 3589"]
    before
  have first: "\<exists>err v' g' evs.
      makeGETAPICall (mock_env server_ok) ''/users'' None keep_body [] client1 (world_at 3589) =
        Some (err, v', g', (world_at 3589)\<lparr>trace := Lock # ReadToken # evs\<rparr>) \<and>
      RefreshToken \<notin> set evs"
    by (simp add: empty)
  from refresh_iff_stale [OF free, of "mock_env server_ok" "''/users''" None keep_body "[]" "world_at 3590"]
    reached
  have "\<exists>err v' g' evs.
      makeGETAPICall (mock_env server_ok) ''/users'' None keep_body [] client1 (world_at 3590) =
        Some (err, v', g', (world_at 3590)\<lparr>trace := Lock # ReadToken # evs\<rparr>) \<and>
      (\<exists>rest. evs = RefreshToken # rest \<and> RefreshToken \<notin> set rest)"
    by (simp add: empty)
  then have second: "\<exists>err v' g' rest.
      makeGETAPICall (mock_env server_ok) ''/users'' None keep_body [] client1 (world_at 3590) =
        Some (err, v', g', (world_at 3590)\<lparr>trace := Lock # ReadToken # RefreshToken # rest\<rparr>) \<and>
      RefreshToken \<notin> set rest"
    by blast
  from first second show ?thesis by blast
qed

lemma api_request_fields:
  "Method (api_request E u apicall getParams tok) = ''GET''"
  "Path (URL (api_request E u apicall getParams tok)) = ''/'' @ APIVersion E @ apicall"
  "RawQuery (URL (api_request E u apicall getParams tok)) =
     Values_Encode E (Values_Add (given_params getParams) ''$top'' (itoa (MaxPageSize E)))"
  "Header (api_request E u apicall getParams tok) ''Authorization'' = Some [GetAccessToken tok]"
  "Header (api_request E u apicall getParams tok) ''Content-Type'' = Some [''application/json'']"
  "Request_Body (api_request E u apicall getParams tok) = None"
  by (simp_all add: api_request_def given_params_def Values_Add_def)

lemma Values_Add_lookup:
  "Values_Add q key val key = Some ((case q key of None \<Rightarrow> [] | Some vs \<Rightarrow> vs) @ [val])"
  "k \<noteq> key \<Longrightarrow> Values_Add q key val k = q k"
  by (simp_all add: Values_Add_def)

text \<open>
  Claim C6. For every call of \<^verbatim>\<open>makeGETAPICall\<close> that returns, with any resource path and
  any query parameters (nil or not): every \<^verbatim>\<open>GET\<close> request among its actions has as URL
  path a slash, the API version and the resource path; has as query string the encoding
  of the caller's parameters with \<^verbatim>\<open>$top\<close> added, whose last value is the decimal text of
  the maximum page size, the values of every other key being the caller's; carries the
  client's current token in the \<^verbatim>\<open>Authorization\<close> header and \<^verbatim>\<open>application/json\<close> in the
  \<^verbatim>\<open>Content-Type\<close> header; and has no body. A call that returns no error has sent such
  a request.
\<close>

theorem makeGETAPICall_request:
  assumes "makeGETAPICall E apicall getParams um v g w = Some (err, v', g', w')"
  shows "(\<forall>req. Do req \<in> set (events_since w w') \<and> Method req = ''GET'' \<longrightarrow>
            Path (URL req) = ''/'' @ APIVersion E @ apicall \<and>
            (\<exists>q. RawQuery (URL req) = Values_Encode E q \<and>
               q ''$top'' = Some ((case given_params getParams ''$top'' of
                                     None \<Rightarrow> [] | Some vs \<Rightarrow> vs) @ [itoa (MaxPageSize E)]) \<and>
               (\<forall>k. k \<noteq> ''$top'' \<longrightarrow> q k = given_params getParams k)) \<and>
            Header req ''Authorization'' = Some [GetAccessToken (token g')] \<and>
            Header req ''Content-Type'' = Some [''application/json''] \<and>
            Request_Body req = None) \<and>
         (err = None \<longrightarrow> (\<exists>req. Do req \<in> set (events_since w w') \<and> Method req = ''GET''))"
proof -
  from assms have free: "\<not> apiCall g"
    by (auto simp: makeGETAPICall_def split: if_splits)
  let ?q = "Values_Add (given_params getParams) ''$top'' (itoa (MaxPageSize E))"
  have query: "?q ''$top'' = Some ((case given_params getParams ''$top'' of
        None \<Rightarrow> [] | Some vs \<Rightarrow> vs) @ [itoa (MaxPageSize E)]) \<and>
      (\<forall>k. k \<noteq> ''$top'' \<longrightarrow> ?q k = given_params getParams k)"
    by (simp add: Values_Add_lookup)
  have goal: ?thesis
    if none: "\<And>req. Do req \<in> set (events_since w w') \<Longrightarrow> Method req \<noteq> ''GET''"
      and failed: "err \<noteq> None"
    using none failed by blast
  from free show ?thesis
  proof (cases rule: makeGETAPICall_shape
      [where E = E and w = w and apicall = apicall and getParams = getParams and um = um and v = v])
    case (refresh_failed e evs)
    with assms have "(err, v', g', w') =
        (Some e, v, g, w\<lparr>trace := trace w @ Lock # ReadToken # RefreshToken # evs @ [Unlock]\<rparr>)"
      by simp
    then have evs: "events_since w w' = Lock # ReadToken # RefreshToken # evs @ [Unlock]"
      and err: "err \<noteq> None"
      by simp_all
    have "Method req \<noteq> ''GET''" if "Do req \<in> set (events_since w w')" for req
      using that refresh_failed(3) unfolding evs by auto
    from this err show ?thesis by (rule goal)
  next
    case (not_sent e pre g1)
    with assms have "(err, v', g', w') =
        (Some e, v, g1, w\<lparr>trace := trace w @ Lock # ReadToken # pre @ [Unlock]\<rparr>)"
      by simp
    then have evs: "events_since w w' = Lock # ReadToken # pre @ [Unlock]"
      and err: "err \<noteq> None"
      by simp_all
    have "Method req \<noteq> ''GET''" if "Do req \<in> set (events_since w w')" for req
      using that not_sent(2) unfolding evs by (auto simp: refreshed_by_def split: if_splits)
    from this err show ?thesis by (rule goal)
  next
    case (sent e v1 pre g1 u)
    let ?G = "api_request E u apicall getParams (token g')"
    from sent(1) assms have "(err, v', g', w') =
        (e, v1, g1, w\<lparr>trace := trace w @ Lock # ReadToken # pre @
           [ReadToken, Do (api_request E u apicall getParams (token g1)), Unlock]\<rparr>)"
      by simp
    then have evs: "events_since w w' = Lock # ReadToken # pre @ [ReadToken, Do ?G, Unlock]"
      by simp
    have only: "req = ?G" if "Do req \<in> set (events_since w w')" "Method req = ''GET''" for req
      using that sent(2) unfolding evs by (auto simp: refreshed_by_def split: if_splits)
    have among: "Do ?G \<in> set (events_since w w')"
      unfolding evs by simp
    have fields: "Path (URL ?G) = ''/'' @ APIVersion E @ apicall \<and>
        (\<exists>q. RawQuery (URL ?G) = Values_Encode E q \<and>
           q ''$top'' = Some ((case given_params getParams ''$top'' of
                                 None \<Rightarrow> [] | Some vs \<Rightarrow> vs) @ [itoa (MaxPageSize E)]) \<and>
           (\<forall>k. k \<noteq> ''$top'' \<longrightarrow> q k = given_params getParams k)) \<and>
        Header ?G ''Authorization'' = Some [GetAccessToken (token g')] \<and>
        Header ?G ''Content-Type'' = Some [''application/json''] \<and>
        Request_Body ?G = None"
      using query by (simp only: api_request_fields) blast
    have sent_get: "\<exists>req. Do req \<in> set (events_since w w') \<and> Method req = ''GET''"
      using among api_request_fields(1) by blast
    from only fields sent_get show ?thesis
      by blast
  qed
qed

text \<open>The test environment, field by field.\<close>

lemma mock_env_fields [simp]:
  "BaseURL (mock_env server) = ''https://graph.microsoft.com''"
  "LoginBaseURL (mock_env server) = ''https://login.microsoftonline.com''"
  "APIVersion (mock_env server) = ''v1.0''"
  "MaxPageSize (mock_env server) = 999"
  "margin (mock_env server) = 10"
  "ParseRequestURI (mock_env server) = mock_ParseRequestURI"
  "NewRequest_err (mock_env server) method u = None"
  "URL_String (mock_env server) = mock_URL_String"
  "Values_Encode (mock_env server) = mock_Values_Encode"
  "Client_Do (mock_env server) = server"
  "Unmarshal_Token (mock_env server) = mock_Unmarshal_Token"
  "Unmarshal_Config (mock_env server) = mock_Unmarshal_Config"
  by (simp_all add: mock_env_def)

lemma itoa_999: "itoa 999 = ''999''"
  by (simp add: itoa_def itoa_nat.simps)

lemma mock_query: "mock_Values_Encode [''$top'' \<mapsto> [''999'']] = ''$top=999''"
  by (simp add: mock_Values_Encode_def mock_keys_def)

theorem makeGETAPICall_request_witness:
  "makeGETAPICall (mock_env server_ok) ''/users'' None keep_body [] client1 world0 =
     Some (None, ''{}'', client1,
       world0\<lparr>trace := [Lock, ReadToken, ReadToken, Do get_request, Unlock]\<rparr>) \<and>
   Method get_request = ''GET'' \<and>
   Path (URL get_request) = ''/v1.0/users'' \<and>
   (\<exists>q. RawQuery (URL get_request) = mock_Values_Encode q \<and> q ''$top'' = Some [''999'']) \<and>
   Header get_request ''Authorization'' = Some [GetAccessToken (token client1)] \<and>
   Header get_request ''Content-Type'' = Some [''application/json'']"
proof -
  let ?E = "mock_env server_ok"
  let ?w' = "world0\<lparr>trace := [Lock, ReadToken, ReadToken, Do get_request, Unlock]\<rparr>"
  have fresh: "\<not> WantsToBeRefreshed 10 (token client1) (clock world0)"
    by (simp add: WantsToBeRefreshed_def client1_def world0_def)
  have base: "mock_ParseRequestURI ''https://graph.microsoft.com'' =
      Inr \<lparr>Scheme = ''https'', Host = ''graph.microsoft.com'', Path = [], RawQuery = []\<rparr>"
    by (simp add: mock_ParseRequestURI_def)
  have sent: "performRequest ?E req keep_body [] w = (None, ''{}'', emit (Do req) w)"
    if "Method req = ''GET''" for w req
    using that by (simp add: performRequest_def server_ok_def keep_body_def)
  have built: "\<lparr>Method = ''GET'',
      URL = \<lparr>Scheme = ''https'', Host = ''graph.microsoft.com'', Path = ''/v1.0/users'',
        RawQuery = mock_Values_Encode (Values_Add Map.empty ''$top'' ''999'')\<rparr>,
      Header = Values_Add (Values_Add Map.empty ''Content-Type'' ''application/json'')
        ''Authorization'' (GetAccessToken (token client1)),
      Request_Body = None\<rparr> = get_request"
    by (simp add: get_request_def Values_Add_def mock_query GetAccessToken_def client1_def)
  have locked: "makeGETAPICall_locked ?E ''/users'' None keep_body [] (client1\<lparr>apiCall := True\<rparr>)
      (emit Lock world0) =
     (None, ''{}'', client1\<lparr>apiCall := True\<rparr>,
      world0\<lparr>trace := trace world0 @ [Lock, ReadToken, ReadToken, Do get_request]\<rparr>)"
    using fresh
    by (simp add: makeGETAPICall_locked_def base NewRequest_def sent emit_def itoa_999 built)
  have run: "makeGETAPICall ?E ''/users'' None keep_body [] client1 world0 = Some (None, ''{}'', client1, ?w')"
  proof -
    have free: "\<not> apiCall client1"
      by (simp add: client1_def)
    have "makeGETAPICall ?E ''/users'' None keep_body [] client1 world0 =
        Some (None, ''{}'', client1\<lparr>apiCall := True, apiCall := False\<rparr>,
          emit Unlock (world0\<lparr>trace := trace world0 @ [Lock, ReadToken, ReadToken, Do get_request]\<rparr>))"
      by (simp add: makeGETAPICall_def free locked)
    then show ?thesis
      by (simp add: emit_def client1_def world0_def)
  qed
  note inst = makeGETAPICall_request [OF run]
  have among: "Do get_request \<in> set (events_since world0 ?w')"
    by (simp add: events_since_def world0_def)
  have get: "Method get_request = ''GET''"
    by (simp add: get_request_def)
  from inst among get
  have "Path (URL get_request) = ''/'' @ APIVersion ?E @ ''/users'' \<and>
        (\<exists>q. RawQuery (URL get_request) = Values_Encode ?E q \<and>
           q ''$top'' = Some ((case given_params None ''$top'' of
                                 None \<Rightarrow> [] | Some vs \<Rightarrow> vs) @ [itoa (MaxPageSize ?E)])) \<and>
        Header get_request ''Authorization'' = Some [GetAccessToken (token client1)] \<and>
        Header get_request ''Content-Type'' = Some [''application/json'']"
    by blast
  then have "Path (URL get_request) = ''/v1.0/users'' \<and>
        (\<exists>q. RawQuery (URL get_request) = mock_Values_Encode q \<and> q ''$top'' = Some [''999'']) \<and>
        Header get_request ''Authorization'' = Some [GetAccessToken (token client1)] \<and>
        Header get_request ''Content-Type'' = Some [''application/json'']"
    by (simp add: mock_env_def given_params_def itoa_999)
  with run get show ?thesis by simp
qed

subsection \<open>The lock discipline\<close>

text \<open>
  Every call of \<^verbatim>\<open>makeGETAPICall\<close> that returns has kept the lock discipline and has
  released the mutex, on every path.
\<close>

lemma makeGETAPICall_lock_discipline:
  assumes "makeGETAPICall E apicall getParams um v g w = Some (err, v', g', w')"
  shows "lock_discipline False (events_since w w') \<and> \<not> apiCall g'"
proof -
  from assms have free: "\<not> apiCall g"
    by (auto simp: makeGETAPICall_def split: if_splits)
  from free show ?thesis
  proof (cases rule: makeGETAPICall_shape
      [where E = E and w = w and apicall = apicall and getParams = getParams and um = um and v = v])
    case (refresh_failed e evs)
    from refresh_failed(2) assms have "(err, v', g', w') =
        (Some e, v, g, w\<lparr>trace := trace w @ Lock # ReadToken # RefreshToken # evs @ [Unlock]\<rparr>)"
      by simp
    with free refresh_failed(3) show ?thesis by auto
  next
    case (not_sent e pre g1)
    from not_sent(1) assms have "(err, v', g', w') =
        (Some e, v, g1, w\<lparr>trace := trace w @ Lock # ReadToken # pre @ [Unlock]\<rparr>)"
      by simp
    with free not_sent(2) show ?thesis
      by (auto simp: refreshed_by_def split: if_splits)
  next
    case (sent e v1 pre g1 u)
    from sent(1) assms have "(err, v', g', w') =
        (e, v1, g1, w\<lparr>trace := trace w @ Lock # ReadToken # pre @
           [ReadToken, Do (api_request E u apicall getParams (token g1)), Unlock]\<rparr>)"
      by simp
    with free sent(2) show ?thesis
      by (auto simp: refreshed_by_def split: if_splits)
  qed
qed

text \<open>\<^verbatim>\<open>NewGraphClient\<close> keeps the lock discipline and returns the client with the mutex free.\<close>

lemma NewGraphClient_lock_discipline:
  "lock_discipline False
     (events_since w (snd (snd (NewGraphClient E tenantID applicationID clientSecret w)))) \<and>
   \<not> apiCall (fst (NewGraphClient E tenantID applicationID clientSecret w))"
proof -
  let ?g = "\<lparr>apiCall = True, TenantID = tenantID, ApplicationID = applicationID,
      ClientSecret = clientSecret, token = Token_zero\<rparr>"
  show ?thesis
  proof (cases rule: refreshToken_shape [of E ?g "emit Lock w"])
    case (failed err evs)
    from failed(1) have "refreshToken E ?g (emit Lock w) =
        (Some err, ?g, w\<lparr>trace := trace w @ Lock # RefreshToken # evs\<rparr>)"
      by (simp add: emit_def)
    from NewGraphClient_unfold [OF this] failed(2) show ?thesis
      by auto
  next
    case (refreshed t u)
    from refreshed(1) have "refreshToken E ?g (emit Lock w) =
        (None, ?g\<lparr>token := t\<rparr>,
         w\<lparr>trace := trace w @ Lock # [RefreshToken, Do (token_request E u ?g), WriteToken]\<rparr>)"
      by (simp add: emit_def)
    from NewGraphClient_unfold [OF this] show ?thesis
      by simp
  qed
qed

text \<open>
  \<^verbatim>\<open>UnmarshalJSON\<close> never takes the mutex; whenever the three fields it decodes are all
  non-empty it enters \<^verbatim>\<open>refreshToken\<close> all the same, which breaks the lock discipline.
\<close>

lemma UnmarshalJSON_no_lock:
  assumes "Unmarshal_Config E data = Inr tmp"
    and "tmp_TenantID tmp \<noteq> []" "tmp_ApplicationID tmp \<noteq> []" "tmp_ClientSecret tmp \<noteq> []"
  shows "\<exists>evs. events_since w (snd (snd (UnmarshalJSON E data g w))) = RefreshToken # evs \<and>
           Lock \<notin> set evs"
    and "\<not> lock_discipline False (events_since w (snd (snd (UnmarshalJSON E data g w))))"
proof -
  let ?g = "g\<lparr>TenantID := tmp_TenantID tmp, ApplicationID := tmp_ApplicationID tmp,
      ClientSecret := tmp_ClientSecret tmp\<rparr>"
  have call: "UnmarshalJSON E data g w =
      (case refreshToken E ?g w of
         (Some err, g4, w1) \<Rightarrow> (Some (''Can't get Token: '' @ err), g4, w1)
       | (None, g4, w1) \<Rightarrow> (None, g4, w1))"
    using assms by (simp add: UnmarshalJSON_def)
  have "\<exists>evs. events_since w (snd (snd (UnmarshalJSON E data g w))) = RefreshToken # evs \<and>
           Lock \<notin> set evs"
  proof (cases rule: refreshToken_shape [of E ?g w])
    case (failed err evs)
    then show ?thesis unfolding call by auto
  next
    case (refreshed t u)
    then show ?thesis unfolding call by auto
  qed
  then show "\<exists>evs. events_since w (snd (snd (UnmarshalJSON E data g w))) = RefreshToken # evs \<and>
           Lock \<notin> set evs"
    and "\<not> lock_discipline False (events_since w (snd (snd (UnmarshalJSON E data g w))))"
    by auto
qed

text \<open>
  Claim C1 (a defect of the code). Unmarshalling a well-formed configuration into a
  client whose mutex is free: \<^verbatim>\<open>UnmarshalJSON\<close> succeeds, has replaced the token, and its
  actions are the entry into \<^verbatim>\<open>refreshToken\<close>, the token request and the assignment of
  the token, none of them under the mutex, which it never takes. The lock discipline
  that \<^verbatim>\<open>makeGETAPICall\<close> and \<^verbatim>\<open>NewGraphClient\<close> keep is broken on this path.
\<close>

theorem UnmarshalJSON_refreshes_without_mutex:
  "fst (UnmarshalJSON (mock_env server_ok) config_data client0 world0) = None \<and>
   token (fst (snd (UnmarshalJSON (mock_env server_ok) config_data client0 world0))) =
     \<lparr>AccessToken = ''abc'', ExpiresOn = 3600\<rparr> \<and>
   (\<exists>req. events_since world0 (snd (snd (UnmarshalJSON (mock_env server_ok) config_data client0 world0))) =
      [RefreshToken, Do req, WriteToken]) \<and>
   \<not> lock_discipline False
     (events_since world0 (snd (snd (UnmarshalJSON (mock_env server_ok) config_data client0 world0))))"
proof -
  let ?E = "mock_env server_ok"
  let ?g = "client0\<lparr>TenantID := ''t1'', ApplicationID := ''a1'', ClientSecret := ''s1''\<rparr>"
  let ?u = "\<lparr>Scheme = ''https'', Host = ''login.microsoftonline.com'', Path = [], RawQuery = []\<rparr>"
  have login: "mock_ParseRequestURI ''https://login.microsoftonline.com'' = Inr ?u"
    by (simp add: mock_ParseRequestURI_def)
  have answered: "performRequest ?E req mock_Unmarshal_Token Token_zero w =
      (None, \<lparr>AccessToken = ''abc'', ExpiresOn = 3600\<rparr>, emit (Do req) w)"
    if "Method req = ''POST''" for req w
    using that by (simp add: performRequest_def server_ok_def mock_Unmarshal_Token_def)
  have refresh: "refreshToken ?E ?g world0 =
      (None, ?g\<lparr>token := \<lparr>AccessToken = ''abc'', ExpiresOn = 3600\<rparr>\<rparr>,
       world0\<lparr>trace := trace world0 @ [RefreshToken, Do (token_request ?E ?u ?g), WriteToken]\<rparr>)"
    by (simp add: refreshToken_def login NewRequest_def answered token_request_def emit_def
        client0_def Let_def)
  have cfg: "mock_Unmarshal_Config config_data =
      Inr \<lparr>tmp_TenantID = ''t1'', tmp_ApplicationID = ''a1'', tmp_ClientSecret = ''s1''\<rparr>"
    by (simp add: mock_Unmarshal_Config_def config_data_def)
  have run: "UnmarshalJSON ?E config_data client0 world0 =
      (None, ?g\<lparr>token := \<lparr>AccessToken = ''abc'', ExpiresOn = 3600\<rparr>\<rparr>,
       world0\<lparr>trace := trace world0 @ [RefreshToken, Do (token_request ?E ?u ?g), WriteToken]\<rparr>)"
    by (simp add: UnmarshalJSON_def cfg refresh Let_def)
  show ?thesis
    unfolding run by simp
qed

end
